theory Spec2Isabelle
  imports Complex_Main
begin

section \<open>Values, exceptions and the outside world\<close>

text \<open>
  The agents exchange plain Python values obtained by decoding JSON text: the chains
  end in a JSON output parser, and \<open>generate\<close>, \<open>review\<close> and \<open>run\<close> are
  annotated \<open>-> dict\<close>. \<open>JNull\<close> is Python's \<open>None\<close>; a dict is the list of
  its items in insertion order, with distinct keys. Numbers are restricted to
  integers: nothing below computes with a number.
\<close>

datatype json =
    JNull
  | JBool bool
  | JInt int
  | JStr string
  | JList "json list"
  | JDict "(string \<times> json) list"

text \<open>A Python exception: its class, its message, and the exception it wraps.\<close>

datatype exn = Exn (exn_class: string) (exn_msg: string) (exn_cause: "exn option")

text \<open>The three pydantic models (\<open>MCQ\<close> is nested in \<open>GeneratorOutput\<close>).\<close>

datatype schema = GeneratorOutput | ReviewerOutput

text \<open>\<open>ChatGroq(model=..., temperature=...)\<close>.\<close>

record ChatGroq =
  model :: string
  temperature :: real

text \<open>
  The dict handed to \<open>chain.invoke\<close>. \<open>format_instructions\<close> stands for
  \<open>parser.get_format_instructions()\<close>, a text fixed by the parser's pydantic model;
  \<open>content\<close> stands for \<open>json.dumps(content, indent=2)\<close>.
\<close>

datatype chain_input =
    GeneratorInput (grade: int) (topic: string) (feedback_section: string)
      (format_instructions: schema)
  | ReviewerInput (grade: int) (topic: string) (content: json)
      (format_instructions: schema)

text \<open>
  What can be observed of an execution from outside: the construction of a client for
  the generation capability, the entry into a role's method, and a request sent
  through a chain.
\<close>

datatype event =
    ChatGroq_created ChatGroq
  | Generate_called int string json
  | Review_called int string json
  | Chain_invoked ChatGroq chain_input

record 'w world =
  trace :: "event list"
  ext :: 'w

text \<open>
  What the repository takes from its libraries: the chain \<open>prompt | llm | parser\<close>,
  which answers a request with a decoded value or raises and may change the state of
  the service, and Python's \<open>str()\<close> on a value that is not a string.
\<close>

record 'w runtime =
  capability :: "ChatGroq \<Rightarrow> schema \<Rightarrow> chain_input \<Rightarrow> 'w \<Rightarrow> (exn + json) \<times> 'w"
  py_str :: "json \<Rightarrow> string"

definition emit :: "event \<Rightarrow> 'w world \<Rightarrow> 'w world" where
  "emit ev w = w\<lparr>trace := trace w @ [ev]\<rparr>"

definition chain_invoke ::
  "'w runtime \<Rightarrow> ChatGroq \<Rightarrow> schema \<Rightarrow> chain_input \<Rightarrow> 'w world \<Rightarrow> (exn + json) \<times> 'w world"
where
  "chain_invoke rt llm parser inp w =
     (case capability rt llm parser inp (ext w) of
        (r, x) \<Rightarrow> (r, (emit (Chain_invoked llm inp) w)\<lparr>ext := x\<rparr>))"

subsection \<open>Python's own operations on these values\<close>

text \<open>\<open>if v:\<close>\<close>

fun truthy :: "json \<Rightarrow> bool" where
  "truthy JNull = False"
| "truthy (JBool b) = b"
| "truthy (JInt n) = (n \<noteq> 0)"
| "truthy (JStr s) = (s \<noteq> [])"
| "truthy (JList xs) = (xs \<noteq> [])"
| "truthy (JDict kvs) = (kvs \<noteq> [])"

text \<open>The name of a type between apostrophes, as Python's messages print it.\<close>

definition quoted :: "string \<Rightarrow> string" where
  "quoted name = [CHR 0x27] @ name @ [CHR 0x27]"

text \<open>
  \<open>for item in v\<close>: a str yields its characters, a dict its keys. A string is the
  list of its characters, each of one byte.
\<close>

fun py_iter :: "json \<Rightarrow> exn + json list" where
  "py_iter (JList xs) = Inr xs"
| "py_iter (JStr s) = Inr (map (\<lambda>c. JStr [c]) s)"
| "py_iter (JDict kvs) = Inr (map (\<lambda>kv. JStr (fst kv)) kvs)"
| "py_iter JNull =
     Inl (Exn ''TypeError'' (quoted ''NoneType'' @ '' object is not iterable'') None)"
| "py_iter (JBool b) =
     Inl (Exn ''TypeError'' (quoted ''bool'' @ '' object is not iterable'') None)"
| "py_iter (JInt n) =
     Inl (Exn ''TypeError'' (quoted ''int'' @ '' object is not iterable'') None)"

text \<open>\<open>v[key]\<close> with a str key.\<close>

fun subscript :: "json \<Rightarrow> string \<Rightarrow> exn + json" where
  "subscript (JDict kvs) key =
     (case map_of kvs key of
        None \<Rightarrow> Inl (Exn ''KeyError'' key None)
      | Some v \<Rightarrow> Inr v)"
| "subscript (JList xs) key =
     Inl (Exn ''TypeError'' ''list indices must be integers or slices, not str'' None)"
| "subscript (JStr s) key =
     Inl (Exn ''TypeError'' (''string indices must be integers, not '' @ quoted ''str'') None)"
| "subscript JNull key =
     Inl (Exn ''TypeError'' (quoted ''NoneType'' @ '' object is not subscriptable'') None)"
| "subscript (JBool b) key =
     Inl (Exn ''TypeError'' (quoted ''bool'' @ '' object is not subscriptable'') None)"
| "subscript (JInt n) key =
     Inl (Exn ''TypeError'' (quoted ''int'' @ '' object is not subscriptable'') None)"

text \<open>\<open>f"{item}"\<close>: a str is inserted as it is, any other value through \<open>str()\<close>.\<close>

fun format_item :: "(json \<Rightarrow> string) \<Rightarrow> json \<Rightarrow> string" where
  "format_item str_of (JStr s) = s"
| "format_item str_of v = str_of v"

text \<open>\<open>sep.join(parts)\<close>\<close>

fun join :: "string \<Rightarrow> string list \<Rightarrow> string" where
  "join sep [] = []"
| "join sep [x] = x"
| "join sep (x # y # ys) = x @ sep @ join sep (y # ys)"

text \<open>\<open>s.split(c)\<close> for a single character \<open>c\<close>.\<close>

fun split_on :: "char \<Rightarrow> string \<Rightarrow> string list" where
  "split_on c [] = [[]]"
| "split_on c (x # xs) =
     (if x = c then [] # split_on c xs
      else (case split_on c xs of
              [] \<Rightarrow> [[x]]
            | l # ls \<Rightarrow> (x # l) # ls))"

section \<open>GeneratorAgent\<close>

record GeneratorAgent =
  gen_llm :: ChatGroq
  gen_parser :: schema

definition not_set :: exn where
  "not_set = Exn ''ValueError'' ''GROQ_API_KEY environment variable is not set'' None"

text \<open>
  \<open>__init__\<close>: \<open>os.getenv\<close> reads the process environment; \<open>not api_key\<close> holds
  for a missing variable and for an empty one.
\<close>

definition GeneratorAgent_init ::
  "(string \<rightharpoonup> string) \<Rightarrow> 'w world \<Rightarrow> (exn + GeneratorAgent) \<times> 'w world"
where
  "GeneratorAgent_init environ w =
     (let api_key = environ ''GROQ_API_KEY'' in
      if api_key = None \<or> api_key = Some [] then (Inl not_set, w)
      else
        (let llm = \<lparr>model = ''llama-3.3-70b-versatile'', temperature = 0.7\<rparr> in
         (Inr \<lparr>gen_llm = llm, gen_parser = GeneratorOutput\<rparr>, emit (ChatGroq_created llm) w)))"

definition feedback_header :: string where
  "feedback_header = ''FEEDBACK FROM REVIEWER (Address these issues):''"

text \<open>Lines 83 to 88 of \<open>generate\<close>: the text put under \<open>feedback_section\<close>.\<close>

definition build_feedback_section :: "(json \<Rightarrow> string) \<Rightarrow> json \<Rightarrow> exn + string" where
  "build_feedback_section str_of feedback =
     (if truthy feedback then
        (case py_iter feedback of
           Inl e \<Rightarrow> Inl e
         | Inr items \<Rightarrow>
             Inr ([CHR 10] @ feedback_header @ [CHR 10]
                  @ join [CHR 10] (map (\<lambda>item. ''- '' @ format_item str_of item) items)
                  @ [CHR 10]))
      else Inr [])"

text \<open>\<open>generate(self, grade, topic, feedback=None)\<close>\<close>

definition generate ::
  "'w runtime \<Rightarrow> GeneratorAgent \<Rightarrow> int \<Rightarrow> string \<Rightarrow> json \<Rightarrow> 'w world \<Rightarrow> (exn + json) \<times> 'w world"
where
  "generate rt self g t feedback w0 =
     (let w = emit (Generate_called g t feedback) w0 in
      case build_feedback_section (py_str rt) feedback of
        Inl e \<Rightarrow> (Inl e, w)
      | Inr section \<Rightarrow>
          chain_invoke rt (gen_llm self) (gen_parser self)
            (GeneratorInput g t section (gen_parser self)) w)"

section \<open>ReviewerAgent\<close>

record ReviewerAgent =
  rev_llm :: ChatGroq
  rev_parser :: schema

definition ReviewerAgent_init ::
  "(string \<rightharpoonup> string) \<Rightarrow> 'w world \<Rightarrow> (exn + ReviewerAgent) \<times> 'w world"
where
  "ReviewerAgent_init environ w =
     (let api_key = environ ''GROQ_API_KEY'' in
      if api_key = None \<or> api_key = Some [] then (Inl not_set, w)
      else
        (let llm = \<lparr>model = ''llama-3.3-70b-versatile'', temperature = 0.3\<rparr> in
         (Inr \<lparr>rev_llm = llm, rev_parser = ReviewerOutput\<rparr>, emit (ChatGroq_created llm) w)))"

text \<open>\<open>review(self, grade, topic, content)\<close>\<close>

definition review ::
  "'w runtime \<Rightarrow> ReviewerAgent \<Rightarrow> int \<Rightarrow> string \<Rightarrow> json \<Rightarrow> 'w world \<Rightarrow> (exn + json) \<times> 'w world"
where
  "review rt self g t c w0 =
     (let w = emit (Review_called g t c) w0 in
      chain_invoke rt (rev_llm self) (rev_parser self)
        (ReviewerInput g t c (rev_parser self)) w)"

section \<open>AgentPipeline\<close>

record AgentPipeline =
  generator :: GeneratorAgent
  reviewer :: ReviewerAgent

definition AgentPipeline_init ::
  "(string \<rightharpoonup> string) \<Rightarrow> 'w world \<Rightarrow> (exn + AgentPipeline) \<times> 'w world"
where
  "AgentPipeline_init environ w0 =
     (case GeneratorAgent_init environ w0 of
        (Inl e, w1) \<Rightarrow> (Inl e, w1)
      | (Inr gen, w1) \<Rightarrow>
          (case ReviewerAgent_init environ w1 of
             (Inl e, w2) \<Rightarrow> (Inl e, w2)
           | (Inr rvw, w2) \<Rightarrow> (Inr \<lparr>generator = gen, reviewer = rvw\<rparr>, w2)))"

text \<open>The value stored under \<open>"refinement"\<close> on the fail branch.\<close>

record refinement_entry =
  refined_content :: json
  feedback_addressed :: json

text \<open>The \<open>results\<close> dict of \<open>run\<close>; its keys never change.\<close>

record results =
  input :: "int \<times> string"
  initial_generation :: json
  initial_review :: json
  refinement :: "refinement_entry option"
  final_output :: json

text \<open>
  \<open>run(self, grade, topic)\<close>. An exception leaves the function at the point where
  it is raised, and the local \<open>results\<close> goes with it. The \<open>print\<close> calls are
  left out.
\<close>

definition run ::
  "'w runtime \<Rightarrow> AgentPipeline \<Rightarrow> int \<Rightarrow> string \<Rightarrow> 'w world \<Rightarrow> (exn + results) \<times> 'w world"
where
  "run rt self g t w0 =
     (let results0 = \<lparr>input = (g, t), initial_generation = JNull, initial_review = JNull,
                       refinement = None, final_output = JNull\<rparr> in
      case generate rt (generator self) g t JNull w0 of
        (Inl e, w1) \<Rightarrow> (Inl e, w1)
      | (Inr initial_content, w1) \<Rightarrow>
          (let results1 = results0\<lparr>initial_generation := initial_content\<rparr> in
           case review rt (reviewer self) g t initial_content w1 of
             (Inl e, w2) \<Rightarrow> (Inl e, w2)
           | (Inr rv, w2) \<Rightarrow>
               (let results2 = results1\<lparr>initial_review := rv\<rparr> in
                case subscript rv ''status'' of
                  Inl e \<Rightarrow> (Inl e, w2)
                | Inr status \<Rightarrow>
                    if status = JStr ''fail'' then
                      (case subscript rv ''feedback'' of
                         Inl e \<Rightarrow> (Inl e, w2)
                       | Inr fb \<Rightarrow>
                           (case generate rt (generator self) g t fb w2 of
                              (Inl e, w3) \<Rightarrow> (Inl e, w3)
                            | (Inr refined, w3) \<Rightarrow>
                                (case subscript rv ''feedback'' of
                                   Inl e \<Rightarrow> (Inl e, w3)
                                 | Inr fb' \<Rightarrow>
                                     (Inr (results2\<lparr>refinement :=
                                              Some \<lparr>refined_content = refined,
                                                    feedback_addressed = fb'\<rparr>,
                                            final_output := refined\<rparr>), w3))))
                    else (Inr (results2\<lparr>final_output := initial_content\<rparr>), w2))))"

section \<open>Observations on a trace\<close>

text \<open>The events that an execution adds to the trace.\<close>

definition new_events :: "'w world \<Rightarrow> 'w world \<Rightarrow> event list" where
  "new_events w0 w = drop (length (trace w0)) (trace w)"

datatype role = Generator | Reviewer

text \<open>The sequence of role methods entered, in order.\<close>

fun roles_called :: "event list \<Rightarrow> role list" where
  "roles_called [] = []"
| "roles_called (Generate_called g t f # es) = Generator # roles_called es"
| "roles_called (Review_called g t c # es) = Reviewer # roles_called es"
| "roles_called (ChatGroq_created l # es) = roles_called es"
| "roles_called (Chain_invoked l i # es) = roles_called es"

text \<open>The requests sent through a chain, in order, each with the client's settings.\<close>

fun requests :: "event list \<Rightarrow> (ChatGroq \<times> chain_input) list" where
  "requests [] = []"
| "requests (Chain_invoked l i # es) = (l, i) # requests es"
| "requests (Generate_called g t f # es) = requests es"
| "requests (Review_called g t c # es) = requests es"
| "requests (ChatGroq_created l # es) = requests es"

text \<open>The clients of the generation capability that were constructed.\<close>

fun clients_created :: "event list \<Rightarrow> ChatGroq list" where
  "clients_created [] = []"
| "clients_created (ChatGroq_created l # es) = l # clients_created es"
| "clients_created (Generate_called g t f # es) = clients_created es"
| "clients_created (Review_called g t c # es) = clients_created es"
| "clients_created (Chain_invoked l i # es) = clients_created es"

text \<open>A request carries the settings its role was constructed with.\<close>

fun sent_with_own_settings :: "AgentPipeline \<Rightarrow> ChatGroq \<times> chain_input \<Rightarrow> bool" where
  "sent_with_own_settings p (l, GeneratorInput g t s f) = (l = gen_llm (generator p))"
| "sent_with_own_settings p (l, ReviewerInput g t c f) = (l = rev_llm (reviewer p))"

section \<open>The pydantic models and the invariants of the specification\<close>

text \<open>
  What the classes \<open>MCQ\<close>, \<open>GeneratorOutput\<close> and \<open>ReviewerOutput\<close> declare: the
  fields and their types. The parsers are constructed with these classes and with
  nothing else.
\<close>

fun is_str :: "json \<Rightarrow> bool" where
  "is_str (JStr s) = True"
| "is_str v = False"

definition MCQ_fields :: "json \<Rightarrow> bool" where
  "MCQ_fields q =
     (case (subscript q ''question'', subscript q ''options'', subscript q ''answer'') of
        (Inr (JStr qu), Inr (JList os), Inr (JStr a)) \<Rightarrow> list_all is_str os
      | _ \<Rightarrow> False)"

definition GeneratorOutput_fields :: "json \<Rightarrow> bool" where
  "GeneratorOutput_fields v =
     (case (subscript v ''explanation'', subscript v ''mcqs'') of
        (Inr (JStr ex), Inr (JList qs)) \<Rightarrow> list_all MCQ_fields qs
      | _ \<Rightarrow> False)"

definition ReviewerOutput_fields :: "json \<Rightarrow> bool" where
  "ReviewerOutput_fields v =
     (case (subscript v ''status'', subscript v ''feedback'') of
        (Inr (JStr st), Inr (JList fs)) \<Rightarrow>
          (st = ''pass'' \<or> st = ''fail'') \<and> list_all is_str fs
      | _ \<Rightarrow> False)"

fun conforms :: "schema \<Rightarrow> json \<Rightarrow> bool" where
  "conforms GeneratorOutput v = GeneratorOutput_fields v"
| "conforms ReviewerOutput v = ReviewerOutput_fields v"

text \<open>
  The invariants that the specification states for a Question and a ContentBundle,
  written on the wire shape (\<open>mcqs\<close>, \<open>options\<close>, \<open>answer\<close>): exactly four
  options with the correct answer among them, exactly four questions. These two
  predicates follow the specification's words; no function of the source computes
  them.
\<close>

definition spec_Question_invariants :: "json \<Rightarrow> bool" where
  "spec_Question_invariants q =
     (case (subscript q ''options'', subscript q ''answer'') of
        (Inr (JList os), Inr a) \<Rightarrow> length os = 4 \<and> a \<in> set os
      | _ \<Rightarrow> False)"

definition spec_ContentBundle_invariants :: "json \<Rightarrow> bool" where
  "spec_ContentBundle_invariants v =
     (case subscript v ''mcqs'' of
        Inr (JList qs) \<Rightarrow> length qs = 4 \<and> list_all spec_Question_invariants qs
      | _ \<Rightarrow> False)"

text \<open>A bundle of \<open>n\<close> equal questions, each with \<open>m\<close> equal options.\<close>

definition uniform_mcq :: "nat \<Rightarrow> string \<Rightarrow> string \<Rightarrow> json" where
  "uniform_mcq m opt ans =
     JDict [(''question'', JStr ''Which one?''),
            (''options'', JList (replicate m (JStr opt))),
            (''answer'', JStr ans)]"

definition uniform_bundle :: "nat \<Rightarrow> nat \<Rightarrow> string \<Rightarrow> string \<Rightarrow> json" where
  "uniform_bundle n m opt ans =
     JDict [(''explanation'', JStr ''An angle is formed where two lines meet.''),
            (''mcqs'', JList (replicate n (uniform_mcq m opt ans)))]"

section \<open>Concrete executions\<close>

text \<open>A service that answers from a script, one entry for each request.\<close>

definition scripted ::
  "ChatGroq \<Rightarrow> schema \<Rightarrow> chain_input \<Rightarrow> (exn + json) list \<Rightarrow> (exn + json) \<times> (exn + json) list"
where
  "scripted llm parser inp script =
     (case script of
        [] \<Rightarrow> (Inl (Exn ''TimeoutError'' ''no response'' None), [])
      | r # rs \<Rightarrow> (r, rs))"

definition script_runtime :: "(exn + json) list runtime" where
  "script_runtime = \<lparr>capability = scripted, py_str = (\<lambda>v. ''?'')\<rparr>"

definition start :: "'w \<Rightarrow> 'w world" where
  "start x = \<lparr>trace = [], ext = x\<rparr>"

definition key_set :: "string \<rightharpoonup> string" where
  "key_set = [''GROQ_API_KEY'' \<mapsto> ''gsk_test'']"

definition llm_generator :: ChatGroq where
  "llm_generator = \<lparr>model = ''llama-3.3-70b-versatile'', temperature = 0.7\<rparr>"

definition llm_reviewer :: ChatGroq where
  "llm_reviewer = \<lparr>model = ''llama-3.3-70b-versatile'', temperature = 0.3\<rparr>"

definition pipeline :: AgentPipeline where
  "pipeline = \<lparr>generator = \<lparr>gen_llm = llm_generator, gen_parser = GeneratorOutput\<rparr>,
               reviewer = \<lparr>rev_llm = llm_reviewer, rev_parser = ReviewerOutput\<rparr>\<rparr>"

definition angles_mcq :: "string \<Rightarrow> json" where
  "angles_mcq ans =
     JDict [(''question'', JStr ''Which angle measures exactly 90 degrees?''),
            (''options'', JList [JStr ''acute'', JStr ''right'', JStr ''obtuse'', JStr ''straight'']),
            (''answer'', JStr ans)]"

definition first_bundle :: json where
  "first_bundle =
     JDict [(''explanation'', JStr ''Angles are classified by their measure.''),
            (''mcqs'', JList [angles_mcq ''right'', angles_mcq ''right'',
                             angles_mcq ''right'', angles_mcq ''right''])]"

definition second_bundle :: json where
  "second_bundle =
     JDict [(''explanation'', JStr ''An angle is the corner between two lines.''),
            (''mcqs'', JList [angles_mcq ''right'', angles_mcq ''right'',
                             angles_mcq ''right'', angles_mcq ''right''])]"

definition short_bundle :: json where
  "short_bundle =
     JDict [(''explanation'', JStr ''Angles.''),
            (''mcqs'', JList [JDict [(''question'', JStr ''Which one?''),
                                    (''options'', JList [JStr ''acute'', JStr ''right'']),
                                    (''answer'', JStr ''obtuse'')]])]"

definition verdict :: "string \<Rightarrow> string list \<Rightarrow> json" where
  "verdict st items = JDict [(''status'', JStr st), (''feedback'', JList (map JStr items))]"

definition too_advanced :: string where
  "too_advanced = ''Explanation too advanced for grade 4''"

definition unreachable :: exn where
  "unreachable = Exn ''ConnectionError'' ''service unreachable'' None"

text \<open>
  A service that never fails: it answers a generator's request without a feedback
  section with one bundle, a request with a feedback section with another, and a
  reviewer's request with a fixed verdict.
\<close>

definition steady :: "json \<Rightarrow> json \<Rightarrow> json \<Rightarrow> unit runtime" where
  "steady bundle refined v =
     \<lparr>capability = (\<lambda>llm parser inp x.
          case inp of
            GeneratorInput g t s f \<Rightarrow> (Inr (if s = [] then bundle else refined), x)
          | ReviewerInput g t c f \<Rightarrow> (Inr v, x)),
      py_str = (\<lambda>v. ''?'')\<rparr>"

text \<open>
  Scenario A of the specification: grade 4, ``Types of angles'', and a reviewer that
  passes the first bundle. Scenario B: the reviewer fails it with one feedback item.
\<close>

definition angles :: string where
  "angles = ''Types of angles''"

definition first_request :: event where
  "first_request = Chain_invoked llm_generator (GeneratorInput 4 angles [] GeneratorOutput)"

definition review_request :: event where
  "review_request = Chain_invoked llm_reviewer (ReviewerInput 4 angles first_bundle ReviewerOutput)"

definition script_A :: "(exn + json) list" where
  "script_A = [Inr first_bundle, Inr (verdict ''pass'' [])]"

definition record_A :: results where
  "record_A = \<lparr>input = (4, angles), initial_generation = first_bundle,
                initial_review = verdict ''pass'' [], refinement = None,
                final_output = first_bundle\<rparr>"

definition world_A :: "(exn + json) list world" where
  "world_A = \<lparr>trace = [Generate_called 4 angles JNull, first_request,
                        Review_called 4 angles first_bundle, review_request],
               ext = []\<rparr>"

definition script_B :: "(exn + json) list" where
  "script_B = [Inr first_bundle, Inr (verdict ''fail'' [too_advanced]), Inr second_bundle]"

definition record_B :: results where
  "record_B = \<lparr>input = (4, angles), initial_generation = first_bundle,
                initial_review = verdict ''fail'' [too_advanced],
                refinement = Some \<lparr>refined_content = second_bundle,
                                   feedback_addressed = JList [JStr too_advanced]\<rparr>,
                final_output = second_bundle\<rparr>"

definition world_B :: "(exn + json) list world" where
  "world_B = \<lparr>trace = [Generate_called 4 angles JNull, first_request,
                        Review_called 4 angles first_bundle, review_request,
                        Generate_called 4 angles (JList [JStr too_advanced]),
                        Chain_invoked llm_generator
                          (GeneratorInput 4 angles
                             ([CHR 10] @ feedback_header @ [CHR 10] @ ''- '' @ too_advanced
                              @ [CHR 10])
                             GeneratorOutput)],
               ext = []\<rparr>"

text \<open>The states of the world after the first generation and after the review.\<close>

definition world_1 :: "(exn + json) list \<Rightarrow> (exn + json) list world" where
  "world_1 rest = \<lparr>trace = [Generate_called 4 angles JNull, first_request], ext = rest\<rparr>"

definition world_2 :: "(exn + json) list \<Rightarrow> (exn + json) list world" where
  "world_2 rest = \<lparr>trace = [Generate_called 4 angles JNull, first_request,
                            Review_called 4 angles first_bundle, review_request],
                   ext = rest\<rparr>"

text \<open>A reviewer that answers with a status outside \<open>pass\<close> and \<open>fail\<close>.\<close>

definition script_other :: "(exn + json) list" where
  "script_other = [Inr first_bundle, Inr (verdict ''Fail'' [too_advanced]), Inr second_bundle]"

text \<open>A reviewer that fails the bundle and gives no feedback.\<close>

definition script_empty :: "(exn + json) list" where
  "script_empty = [Inr first_bundle, Inr (verdict ''fail'' []), Inr second_bundle]"

section \<open>Basic facts\<close>

lemmas code_defs = run_def generate_def review_def chain_invoke_def emit_def
  build_feedback_section_def Let_def

lemmas demo_defs = script_runtime_def scripted_def start_def pipeline_def llm_generator_def
  llm_reviewer_def first_bundle_def second_bundle_def angles_mcq_def verdict_def
  too_advanced_def short_bundle_def unreachable_def key_set_def angles_def
  first_request_def review_request_def

lemma roles_called_append: "roles_called (xs @ ys) = roles_called xs @ roles_called ys"
  by (induction xs rule: roles_called.induct) auto

lemma requests_append: "requests (xs @ ys) = requests xs @ requests ys"
  by (induction xs rule: requests.induct) auto

lemma new_events_append [simp]: "trace w = trace w0 @ evs \<Longrightarrow> new_events w0 w = evs"
  by (simp add: new_events_def)

text \<open>\<open>generate\<close> enters, builds the feedback section and sends at most one request.\<close>

lemma generate_trace:
  assumes "generate rt self g t fb w0 = (r, w)"
  shows "trace w = trace w0 @ [Generate_called g t fb]
       \<or> (\<exists>sec. build_feedback_section (py_str rt) fb = Inr sec \<and>
             trace w = trace w0 @ [Generate_called g t fb,
               Chain_invoked (gen_llm self) (GeneratorInput g t sec (gen_parser self))])"
  using assms
  by (auto simp: generate_def chain_invoke_def emit_def Let_def split: sum.splits prod.splits)

text \<open>\<open>review\<close> enters and sends exactly one request.\<close>

lemma review_trace:
  assumes "review rt self g t c w0 = (r, w)"
  shows "trace w = trace w0 @ [Review_called g t c,
              Chain_invoked (rev_llm self) (ReviewerInput g t c (rev_parser self))]"
  using assms
  by (auto simp: review_def chain_invoke_def emit_def Let_def split: sum.splits prod.splits)

lemma scenario_A:
  "run script_runtime pipeline 4 angles (start script_A) = (Inr record_A, world_A)"
  by (simp add: code_defs demo_defs script_A_def record_A_def world_A_def)

lemma scenario_B:
  "run script_runtime pipeline 4 angles (start script_B) = (Inr record_B, world_B)"
  by (simp add: code_defs demo_defs script_B_def record_B_def world_B_def)

section \<open>The review branch\<close>

text \<open>
  Claim C1. Whenever \<open>run\<close> returns a record, the record follows the review branch:
  with the status \<open>pass\<close> there is no refinement and the final output is the initial
  generation; with the status \<open>fail\<close> there is a refinement whose
  \<open>feedback_addressed\<close> is the feedback of the initial review and whose content is the
  final output.
\<close>

theorem run_branch_correct:
  assumes "run rt self g t w0 = (Inr res, w)"
  shows "(subscript (initial_review res) ''status'' = Inr (JStr ''pass'') \<longrightarrow>
            refinement res = None \<and> final_output res = initial_generation res)
       \<and> (subscript (initial_review res) ''status'' = Inr (JStr ''fail'') \<longrightarrow>
            (\<exists>ref. refinement res = Some ref
               \<and> subscript (initial_review res) ''feedback'' = Inr (feedback_addressed ref)
               \<and> final_output res = refined_content ref))"
  using assms
  by (auto simp: run_def Let_def split: sum.splits prod.splits if_splits)

theorem run_branch_correct_witness:
  "run script_runtime pipeline 4 angles (start script_A) = (Inr record_A, world_A)
   \<and> subscript (initial_review record_A) ''status'' = Inr (JStr ''pass'')
   \<and> refinement record_A = None
   \<and> final_output record_A = initial_generation record_A
   \<and> run script_runtime pipeline 4 angles (start script_B) = (Inr record_B, world_B)
   \<and> subscript (initial_review record_B) ''status'' = Inr (JStr ''fail'')
   \<and> (\<exists>ref. refinement record_B = Some ref
          \<and> subscript (initial_review record_B) ''feedback'' = Inr (feedback_addressed ref)
          \<and> final_output record_B = refined_content ref)"
  using run_branch_correct [OF scenario_A] run_branch_correct [OF scenario_B]
  by (simp add: scenario_A scenario_B record_A_def record_B_def verdict_def)

lemma trace_start: "trace (start x) = []"
  by (simp add: start_def)

lemma first_generate:
  "generate script_runtime (generator pipeline) 4 angles JNull (start (Inr first_bundle # rest))
     = (Inr first_bundle, world_1 rest)"
  by (simp add: code_defs demo_defs world_1_def)

lemma first_review:
  "review script_runtime (reviewer pipeline) 4 angles first_bundle (world_1 (r # rest))
     = (r, world_2 rest)"
  by (simp add: code_defs demo_defs world_1_def world_2_def)

text \<open>
  Claim C10. \<open>run\<close> compares the status with the string \<open>fail\<close> and with nothing
  else: whenever the first generation and the review succeed and the review carries a
  status that is not exactly \<open>fail\<close>, \<open>run\<close> returns the accepted record, with no
  refinement and with the initial generation as final output, in the state the review
  left.
\<close>

theorem run_accepts_unless_fail:
  assumes "generate rt (generator self) g t JNull w0 = (Inr c, w1)"
      and "review rt (reviewer self) g t c w1 = (Inr rv, w2)"
      and "subscript rv ''status'' = Inr status"
      and "status \<noteq> JStr ''fail''"
  shows "run rt self g t w0 =
           (Inr \<lparr>input = (g, t), initial_generation = c, initial_review = rv,
                  refinement = None, final_output = c\<rparr>, w2)"
  using assms by (simp add: run_def)

theorem run_accepts_unless_fail_witness:
  "subscript (verdict ''Fail'' [too_advanced]) ''status'' = Inr (JStr ''Fail'')
   \<and> JStr ''Fail'' \<noteq> JStr ''fail''
   \<and> run script_runtime pipeline 4 angles (start script_other) =
       (Inr \<lparr>input = (4, angles), initial_generation = first_bundle,
              initial_review = verdict ''Fail'' [too_advanced],
              refinement = None, final_output = first_bundle\<rparr>,
        world_2 [Inr second_bundle])"
  using run_accepts_unless_fail
          [OF first_generate [of "[Inr (verdict ''Fail'' [too_advanced]), Inr second_bundle]"]
              first_review [of "Inr (verdict ''Fail'' [too_advanced])" "[Inr second_bundle]"],
           of "JStr ''Fail''"]
  by (simp add: verdict_def script_other_def)

section \<open>The bound on the calls\<close>

text \<open>
  Claim C3. In one call of \<open>run\<close> the roles are entered in the order generate, review,
  generate, or in a prefix of it: \<open>generate\<close> at most twice, \<open>review\<close> at most once,
  and no review after the second generation.
\<close>

theorem run_call_bound:
  "roles_called (new_events w0 (snd (run rt self g t w0)))
     \<in> {[Generator], [Generator, Reviewer], [Generator, Reviewer, Generator]}
   \<and> count_list (roles_called (new_events w0 (snd (run rt self g t w0)))) Generator \<le> 2
   \<and> count_list (roles_called (new_events w0 (snd (run rt self g t w0)))) Reviewer \<le> 1"
proof -
  have "roles_called (new_events w0 (snd (run rt self g t w0)))
     \<in> {[Generator], [Generator, Reviewer], [Generator, Reviewer, Generator]}"
    by (auto simp: run_def Let_def new_events_def
           split: sum.splits prod.splits if_splits dest!: generate_trace review_trace)
  then show ?thesis by auto
qed

theorem run_call_bound_witness:
  "roles_called (new_events (start script_B)
      (snd (run script_runtime pipeline 4 angles (start script_B))))
     = [Generator, Reviewer, Generator]"
  using run_call_bound [of "start script_B" script_runtime pipeline 4 angles]
  by (simp add: scenario_B world_B_def trace_start new_events_def first_request_def
        review_request_def)

section \<open>An empty feedback list\<close>

text \<open>
  Claim C9. When the review fails the bundle with an empty feedback list, \<open>run\<close>
  still refines: it calls \<open>generate\<close> again, and the record it returns carries a
  refinement with the empty list as \<open>feedback_addressed\<close>. The request of that second
  call has an empty feedback section and is equal to the request of the first pass.
\<close>

theorem empty_feedback_refines_as_first_pass:
  assumes "generate rt (generator self) g t JNull w0 = (Inr c, w1)"
      and "review rt (reviewer self) g t c w1 = (Inr rv, w2)"
      and "subscript rv ''status'' = Inr (JStr ''fail'')"
      and "subscript rv ''feedback'' = Inr (JList [])"
      and "generate rt (generator self) g t (JList []) w2 = (r3, w3)"
  shows "run rt self g t w0 =
           ((case r3 of
               Inl e \<Rightarrow> Inl e
             | Inr refined \<Rightarrow>
                 Inr \<lparr>input = (g, t), initial_generation = c, initial_review = rv,
                      refinement = Some \<lparr>refined_content = refined,
                                         feedback_addressed = JList []\<rparr>,
                      final_output = refined\<rparr>), w3)
       \<and> requests (new_events w0 w3) =
           [(gen_llm (generator self), GeneratorInput g t [] (gen_parser (generator self))),
            (rev_llm (reviewer self), ReviewerInput g t c (rev_parser (reviewer self))),
            (gen_llm (generator self), GeneratorInput g t [] (gen_parser (generator self)))]"
proof -
  let ?first = "Chain_invoked (gen_llm (generator self))
                  (GeneratorInput g t [] (gen_parser (generator self)))"
  have run_eq: "run rt self g t w0 =
           ((case r3 of
               Inl e \<Rightarrow> Inl e
             | Inr refined \<Rightarrow>
                 Inr \<lparr>input = (g, t), initial_generation = c, initial_review = rv,
                      refinement = Some \<lparr>refined_content = refined,
                                         feedback_addressed = JList []\<rparr>,
                      final_output = refined\<rparr>), w3)"
    using assms by (simp add: run_def split: sum.splits)
  have absent: "build_feedback_section (py_str rt) JNull = Inr []"
    and empty: "build_feedback_section (py_str rt) (JList []) = Inr []"
    by (simp_all add: build_feedback_section_def)
  have t1: "trace w1 = trace w0 @ [Generate_called g t JNull, ?first]"
    using assms(1) absent
    by (auto simp: generate_def Let_def chain_invoke_def emit_def split: prod.splits)
  have t2: "trace w2 = trace w1 @ [Review_called g t c,
        Chain_invoked (rev_llm (reviewer self))
          (ReviewerInput g t c (rev_parser (reviewer self)))]"
    using review_trace [OF assms(2)] .
  have t3: "trace w3 = trace w2 @ [Generate_called g t (JList []), ?first]"
    using assms(5) empty
    by (auto simp: generate_def Let_def chain_invoke_def emit_def split: prod.splits)
  have "requests (new_events w0 w3) =
           [(gen_llm (generator self), GeneratorInput g t [] (gen_parser (generator self))),
            (rev_llm (reviewer self), ReviewerInput g t c (rev_parser (reviewer self))),
            (gen_llm (generator self), GeneratorInput g t [] (gen_parser (generator self)))]"
    by (simp add: t1 t2 t3 new_events_def)
  with run_eq show ?thesis by simp
qed

lemma empty_second_generate:
  "generate script_runtime (generator pipeline) 4 angles (JList []) (world_2 [Inr second_bundle])
     = (Inr second_bundle,
        \<lparr>trace = trace (world_2 []) @ [Generate_called 4 angles (JList []), first_request],
         ext = []\<rparr>)"
  by (simp add: code_defs demo_defs world_1_def world_2_def)

theorem empty_feedback_refines_as_first_pass_witness:
  "run script_runtime pipeline 4 angles (start script_empty) =
     (Inr \<lparr>input = (4, angles), initial_generation = first_bundle,
            initial_review = verdict ''fail'' [],
            refinement = Some \<lparr>refined_content = second_bundle,
                               feedback_addressed = JList []\<rparr>,
            final_output = second_bundle\<rparr>,
      \<lparr>trace = trace (world_2 []) @ [Generate_called 4 angles (JList []), first_request],
       ext = []\<rparr>)"
  using empty_feedback_refines_as_first_pass
          [OF first_generate first_review _ _ empty_second_generate, of "verdict ''fail'' []"]
  by (simp add: script_empty_def verdict_def)

section \<open>The feedback directive\<close>

lemma split_on_not_Nil: "split_on c s \<noteq> []"
  by (induction s) (auto split: list.splits)

lemma split_on_line: "c \<notin> set s \<Longrightarrow> split_on c (s @ c # rest) = s # split_on c rest"
  by (induction s) (auto split: list.splits)

lemma split_on_join:
  "xs \<noteq> [] \<Longrightarrow> (\<forall>x\<in>set xs. c \<notin> set x) \<Longrightarrow>
     split_on c (join [c] xs @ c # rest) = xs @ split_on c rest"
proof (induction "[c]" xs rule: join.induct)
  case 1
  then show ?case by simp
next
  case (2 x)
  then show ?case by (simp add: split_on_line)
next
  case (3 x y ys)
  then show ?case by (simp add: split_on_line)
qed

lemma header_one_line: "CHR 10 \<notin> set feedback_header"
  by (simp add: feedback_header_def)

text \<open>
  Claim C7. Called with a non-empty list of feedback strings, \<open>generate\<close> sends a
  request whose feedback section is the line ``FEEDBACK FROM REVIEWER (Address these
  issues):'' followed by one line \<open>- item\<close> for each item, in order; when no item
  contains a line break, these are exactly the lines of the section. Called without
  feedback, it sends an empty section. On the fail branch \<open>run\<close> calls
  \<open>generate\<close> with the feedback list of the review.
\<close>

theorem generate_embeds_feedback:
  assumes "items \<noteq> []"
  shows "\<exists>sec.
           build_feedback_section (py_str rt) (JList (map JStr items)) = Inr sec
         \<and> generate rt self g t (JList (map JStr items)) w0 =
             chain_invoke rt (gen_llm self) (gen_parser self)
               (GeneratorInput g t sec (gen_parser self))
               (emit (Generate_called g t (JList (map JStr items))) w0)
         \<and> sec = [CHR 10] @ ''FEEDBACK FROM REVIEWER (Address these issues):'' @ [CHR 10]
                 @ join [CHR 10] (map (\<lambda>i. ''- '' @ i) items) @ [CHR 10]
         \<and> ((\<forall>i\<in>set items. CHR 10 \<notin> set i) \<longrightarrow>
              split_on (CHR 10) sec
                = [[], ''FEEDBACK FROM REVIEWER (Address these issues):'']
                  @ map (\<lambda>i. ''- '' @ i) items @ [[]])
         \<and> build_feedback_section (py_str rt) JNull = Inr []
         \<and> generate rt self g t JNull w0 =
             chain_invoke rt (gen_llm self) (gen_parser self)
               (GeneratorInput g t [] (gen_parser self))
               (emit (Generate_called g t JNull) w0)
         \<and> (generate rt (generator p) g t JNull w0 = (Inr c, w1)
              \<and> review rt (reviewer p) g t c w1 = (Inr rv, w2)
              \<and> subscript rv ''status'' = Inr (JStr ''fail'')
              \<and> subscript rv ''feedback'' = Inr (JList (map JStr items))
            \<longrightarrow> run rt p g t w0 =
                 (case generate rt (generator p) g t (JList (map JStr items)) w2 of
                    (Inl e, w3) \<Rightarrow> (Inl e, w3)
                  | (Inr refined, w3) \<Rightarrow>
                      (Inr \<lparr>input = (g, t), initial_generation = c, initial_review = rv,
                            refinement = Some \<lparr>refined_content = refined,
                                               feedback_addressed = JList (map JStr items)\<rparr>,
                            final_output = refined\<rparr>, w3)))"
proof -
  let ?lines = "map (\<lambda>i. ''- '' @ i) items"
  let ?sec = "[CHR 10] @ feedback_header @ [CHR 10] @ join [CHR 10] ?lines @ [CHR 10]"
  have built: "build_feedback_section (py_str rt) (JList (map JStr items)) = Inr ?sec"
    using assms by (simp add: build_feedback_section_def comp_def)
  have gen: "generate rt self g t (JList (map JStr items)) w0 =
             chain_invoke rt (gen_llm self) (gen_parser self)
               (GeneratorInput g t ?sec (gen_parser self))
               (emit (Generate_called g t (JList (map JStr items))) w0)"
    by (simp add: generate_def built)
  have lines: "split_on (CHR 10) ?sec = [[], feedback_header] @ ?lines @ [[]]"
    if free: "\<forall>i\<in>set items. CHR 10 \<notin> set i"
  proof -
    have nl: "\<forall>x\<in>set ?lines. CHR 10 \<notin> set x" using free by auto
    have ne: "?lines \<noteq> []" using assms by simp
    have "split_on (CHR 10) (join [CHR 10] ?lines @ CHR 10 # []) = ?lines @ split_on (CHR 10) []"
      using split_on_join [OF ne nl] by blast
    moreover have "split_on (CHR 10) (feedback_header @ CHR 10 # (join [CHR 10] ?lines @ [CHR 10]))
        = feedback_header # split_on (CHR 10) (join [CHR 10] ?lines @ [CHR 10])"
      using split_on_line [OF header_one_line] by blast
    ultimately show ?thesis by simp
  qed
  have none: "build_feedback_section (py_str rt) JNull = Inr []"
    by (simp add: build_feedback_section_def)
  have gen0: "generate rt self g t JNull w0 =
             chain_invoke rt (gen_llm self) (gen_parser self)
               (GeneratorInput g t [] (gen_parser self))
               (emit (Generate_called g t JNull) w0)"
    by (simp add: generate_def none)
  have in_run: "run rt p g t w0 =
                 (case generate rt (generator p) g t (JList (map JStr items)) w2 of
                    (Inl e, w3) \<Rightarrow> (Inl e, w3)
                  | (Inr refined, w3) \<Rightarrow>
                      (Inr \<lparr>input = (g, t), initial_generation = c, initial_review = rv,
                            refinement = Some \<lparr>refined_content = refined,
                                               feedback_addressed = JList (map JStr items)\<rparr>,
                            final_output = refined\<rparr>, w3))"
    if "generate rt (generator p) g t JNull w0 = (Inr c, w1)"
      and "review rt (reviewer p) g t c w1 = (Inr rv, w2)"
      and "subscript rv ''status'' = Inr (JStr ''fail'')"
      and "subscript rv ''feedback'' = Inr (JList (map JStr items))"
    using that by (simp add: run_def split: prod.splits sum.splits)
  show ?thesis
    using built gen lines none gen0 in_run by (simp add: feedback_header_def)
qed

lemma second_generate_B:
  "generate script_runtime (generator pipeline) 4 angles (JList [JStr too_advanced])
        (world_2 [Inr second_bundle]) = (Inr second_bundle, world_B)"
  by (simp add: code_defs demo_defs world_2_def world_B_def)


theorem generate_embeds_feedback_witness:
  "[too_advanced] \<noteq> []
   \<and> CHR 10 \<notin> set too_advanced
   \<and> generate script_runtime (generator pipeline) 4 angles (JList [JStr too_advanced])
        (world_2 [Inr second_bundle]) = (Inr second_bundle, world_B)
   \<and> requests (drop 4 (trace world_B))
      = [(llm_generator,
          GeneratorInput 4 angles
            ([CHR 10] @ ''FEEDBACK FROM REVIEWER (Address these issues):'' @ [CHR 10]
             @ ''- '' @ too_advanced @ [CHR 10])
            GeneratorOutput)]
   \<and> split_on (CHR 10)
        ([CHR 10] @ ''FEEDBACK FROM REVIEWER (Address these issues):'' @ [CHR 10]
         @ ''- '' @ too_advanced @ [CHR 10])
      = [[], ''FEEDBACK FROM REVIEWER (Address these issues):'', ''- '' @ too_advanced, []]
   \<and> subscript (verdict ''fail'' [too_advanced]) ''status'' = Inr (JStr ''fail'')
   \<and> subscript (verdict ''fail'' [too_advanced]) ''feedback'' = Inr (JList [JStr too_advanced])
   \<and> run script_runtime pipeline 4 angles (start script_B) = (Inr record_B, world_B)"
proof -
  have nl: "CHR 10 \<notin> set too_advanced"
    by (simp add: too_advanced_def)
  have verdict: "subscript (verdict ''fail'' [too_advanced]) ''status'' = Inr (JStr ''fail'')"
      "subscript (verdict ''fail'' [too_advanced]) ''feedback'' = Inr (JList [JStr too_advanced])"
    by (simp_all add: verdict_def)
  have lines: "split_on (CHR 10)
        ([CHR 10] @ ''FEEDBACK FROM REVIEWER (Address these issues):'' @ [CHR 10]
         @ ''- '' @ too_advanced @ [CHR 10])
      = [[], ''FEEDBACK FROM REVIEWER (Address these issues):'', ''- '' @ too_advanced, []]"
    using generate_embeds_feedback
          [of "[too_advanced]" script_runtime "generator pipeline" 4 angles
              "start script_B" pipeline first_bundle
              "world_1 [Inr (verdict ''fail'' [too_advanced]), Inr second_bundle]"
              "verdict ''fail'' [too_advanced]" "world_2 [Inr second_bundle]"] nl
    by simp
  have sent: "requests (drop 4 (trace world_B))
      = [(llm_generator,
          GeneratorInput 4 angles
            ([CHR 10] @ ''FEEDBACK FROM REVIEWER (Address these issues):'' @ [CHR 10]
             @ ''- '' @ too_advanced @ [CHR 10])
            GeneratorOutput)]"
    by (simp add: world_B_def first_request_def review_request_def feedback_header_def)
  show ?thesis
    using nl verdict lines sent second_generate_B scenario_B by simp
qed

section \<open>Construction\<close>

text \<open>
  Claim C5. When \<open>GROQ_API_KEY\<close> is missing (or empty), constructing the generator,
  the reviewer or the pipeline raises the \<open>ValueError\<close> ``GROQ_API_KEY environment
  variable is not set'' and leaves the world as it was: no client of the generation
  capability is constructed and no request is sent.
\<close>

theorem missing_credential_fails_fast:
  assumes "environ ''GROQ_API_KEY'' = None \<or> environ ''GROQ_API_KEY'' = Some []"
  shows "GeneratorAgent_init environ w =
           (Inl (Exn ''ValueError'' ''GROQ_API_KEY environment variable is not set'' None), w)
       \<and> ReviewerAgent_init environ w =
           (Inl (Exn ''ValueError'' ''GROQ_API_KEY environment variable is not set'' None), w)
       \<and> AgentPipeline_init environ w =
           (Inl (Exn ''ValueError'' ''GROQ_API_KEY environment variable is not set'' None), w)
       \<and> new_events w (snd (GeneratorAgent_init environ w)) = []
       \<and> new_events w (snd (ReviewerAgent_init environ w)) = []
       \<and> new_events w (snd (AgentPipeline_init environ w)) = []"
  using assms
  by (auto simp: GeneratorAgent_init_def ReviewerAgent_init_def AgentPipeline_init_def
        not_set_def new_events_def)

lemma init_with_key:
  "AgentPipeline_init key_set (start x) =
     (Inr pipeline, \<lparr>trace = [ChatGroq_created llm_generator, ChatGroq_created llm_reviewer], ext = x\<rparr>)"
  by (simp add: GeneratorAgent_init_def ReviewerAgent_init_def AgentPipeline_init_def
        key_set_def start_def pipeline_def llm_generator_def llm_reviewer_def emit_def Let_def)

theorem missing_credential_fails_fast_witness:
  "Map.empty ''GROQ_API_KEY'' = (None :: string option)
   \<and> GeneratorAgent_init Map.empty (start ()) =
        (Inl (Exn ''ValueError'' ''GROQ_API_KEY environment variable is not set'' None), start ())
   \<and> ReviewerAgent_init [''GROQ_API_KEY'' \<mapsto> []] (start ()) =
        (Inl (Exn ''ValueError'' ''GROQ_API_KEY environment variable is not set'' None), start ())
   \<and> clients_created (new_events (start ()) (snd (AgentPipeline_init Map.empty (start ())))) = []
   \<and> clients_created (new_events (start ()) (snd (AgentPipeline_init key_set (start ()))))
        = [llm_generator, llm_reviewer]"
  using missing_credential_fails_fast [of Map.empty "start ()"]
        missing_credential_fails_fast [of "[''GROQ_API_KEY'' \<mapsto> []]" "start ()"]
  by (simp add: init_with_key new_events_def trace_start)

text \<open>
  Claim C8. With the key present both constructors succeed, and the reviewer is
  constructed with a temperature strictly below the generator's (0.3 against 0.7). The
  settings of both roles are the same constants at every construction, and every
  request of a run is sent with the settings its role was constructed with, the
  feedback pass as the first pass.
\<close>

theorem reviewer_temperature_lower:
  "(environ ''GROQ_API_KEY'' = Some key \<and> key \<noteq> [] \<longrightarrow>
      (\<exists>ga ra.
          GeneratorAgent_init environ w = (Inr ga, emit (ChatGroq_created (gen_llm ga)) w)
        \<and> ReviewerAgent_init environ w = (Inr ra, emit (ChatGroq_created (rev_llm ra)) w)
        \<and> fst (AgentPipeline_init environ w) = Inr \<lparr>generator = ga, reviewer = ra\<rparr>
        \<and> temperature (gen_llm ga) = 0.7
        \<and> temperature (rev_llm ra) = 0.3
        \<and> temperature (rev_llm ra) < temperature (gen_llm ga)))
   \<and> (GeneratorAgent_init environ1 w1 = (Inr ga, w1')
        \<and> ReviewerAgent_init environ2 w2 = (Inr ra, w2')
      \<longrightarrow> temperature (rev_llm ra) < temperature (gen_llm ga)
          \<and> ga = \<lparr>gen_llm = \<lparr>model = ''llama-3.3-70b-versatile'', temperature = 0.7\<rparr>,
                   gen_parser = GeneratorOutput\<rparr>
          \<and> ra = \<lparr>rev_llm = \<lparr>model = ''llama-3.3-70b-versatile'', temperature = 0.3\<rparr>,
                   rev_parser = ReviewerOutput\<rparr>)
   \<and> list_all (sent_with_own_settings p)
         (requests (new_events w0 (snd (run rt p g t w0))))"
proof -
  have built: "\<exists>ga ra.
          GeneratorAgent_init environ w = (Inr ga, emit (ChatGroq_created (gen_llm ga)) w)
        \<and> ReviewerAgent_init environ w = (Inr ra, emit (ChatGroq_created (rev_llm ra)) w)
        \<and> fst (AgentPipeline_init environ w) = Inr \<lparr>generator = ga, reviewer = ra\<rparr>
        \<and> temperature (gen_llm ga) = 0.7
        \<and> temperature (rev_llm ra) = 0.3
        \<and> temperature (rev_llm ra) < temperature (gen_llm ga)"
    if "environ ''GROQ_API_KEY'' = Some key" and "key \<noteq> []"
    using that
    by (simp add: GeneratorAgent_init_def ReviewerAgent_init_def AgentPipeline_init_def Let_def)
  have fixed: "temperature (rev_llm ra) < temperature (gen_llm ga)
          \<and> ga = \<lparr>gen_llm = \<lparr>model = ''llama-3.3-70b-versatile'', temperature = 0.7\<rparr>,
                   gen_parser = GeneratorOutput\<rparr>
          \<and> ra = \<lparr>rev_llm = \<lparr>model = ''llama-3.3-70b-versatile'', temperature = 0.3\<rparr>,
                   rev_parser = ReviewerOutput\<rparr>"
    if "GeneratorAgent_init environ1 w1 = (Inr ga, w1')"
      and "ReviewerAgent_init environ2 w2 = (Inr ra, w2')"
    using that
    by (auto simp: GeneratorAgent_init_def ReviewerAgent_init_def Let_def split: if_splits)
  have own: "list_all (sent_with_own_settings p)
         (requests (new_events w0 (snd (run rt p g t w0))))"
    by (auto simp: run_def Let_def new_events_def
           split: sum.splits prod.splits if_splits dest!: generate_trace review_trace)
  show ?thesis using built fixed own by blast
qed

lemma generator_with_key:
  "GeneratorAgent_init key_set (start x) =
     (Inr (generator pipeline), \<lparr>trace = [ChatGroq_created llm_generator], ext = x\<rparr>)"
  by (simp add: GeneratorAgent_init_def key_set_def start_def pipeline_def llm_generator_def
        emit_def Let_def)

lemma reviewer_with_key:
  "ReviewerAgent_init key_set (start x) =
     (Inr (reviewer pipeline), \<lparr>trace = [ChatGroq_created llm_reviewer], ext = x\<rparr>)"
  by (simp add: ReviewerAgent_init_def key_set_def start_def pipeline_def llm_reviewer_def
        emit_def Let_def)

theorem reviewer_temperature_lower_witness:
  "key_set ''GROQ_API_KEY'' = Some ''gsk_test''
   \<and> ''gsk_test'' \<noteq> []
   \<and> GeneratorAgent_init key_set (start ()) =
        (Inr \<lparr>gen_llm = \<lparr>model = ''llama-3.3-70b-versatile'', temperature = 0.7\<rparr>,
               gen_parser = GeneratorOutput\<rparr>,
         \<lparr>trace = [ChatGroq_created
                     \<lparr>model = ''llama-3.3-70b-versatile'', temperature = 0.7\<rparr>],
          ext = ()\<rparr>)
   \<and> ReviewerAgent_init key_set (start ()) =
        (Inr \<lparr>rev_llm = \<lparr>model = ''llama-3.3-70b-versatile'', temperature = 0.3\<rparr>,
               rev_parser = ReviewerOutput\<rparr>,
         \<lparr>trace = [ChatGroq_created
                     \<lparr>model = ''llama-3.3-70b-versatile'', temperature = 0.3\<rparr>],
          ext = ()\<rparr>)
   \<and> fst (AgentPipeline_init key_set (start ())) = Inr pipeline
   \<and> (case fst (ReviewerAgent_init key_set (start ())) of
         Inl e \<Rightarrow> False
       | Inr ra \<Rightarrow>
           (case fst (GeneratorAgent_init key_set (start ())) of
              Inl e \<Rightarrow> False
            | Inr ga \<Rightarrow> temperature (rev_llm ra) < temperature (gen_llm ga)))
   \<and> requests (new_events (start script_B)
        (snd (run script_runtime pipeline 4 angles (start script_B))))
      = [(gen_llm (generator pipeline), GeneratorInput 4 angles [] GeneratorOutput),
         (rev_llm (reviewer pipeline), ReviewerInput 4 angles first_bundle ReviewerOutput),
         (gen_llm (generator pipeline), GeneratorInput 4 angles
            ([CHR 10] @ feedback_header @ [CHR 10] @ ''- '' @ too_advanced @ [CHR 10])
            GeneratorOutput)]"
proof -
  have key: "key_set ''GROQ_API_KEY'' = Some ''gsk_test''" "''gsk_test'' \<noteq> []"
    by (simp_all add: key_set_def)
  have gen: "GeneratorAgent_init key_set (start ()) =
        (Inr \<lparr>gen_llm = \<lparr>model = ''llama-3.3-70b-versatile'', temperature = 0.7\<rparr>,
               gen_parser = GeneratorOutput\<rparr>,
         \<lparr>trace = [ChatGroq_created
                     \<lparr>model = ''llama-3.3-70b-versatile'', temperature = 0.7\<rparr>],
          ext = ()\<rparr>)"
    by (simp add: generator_with_key pipeline_def llm_generator_def)
  have rev: "ReviewerAgent_init key_set (start ()) =
        (Inr \<lparr>rev_llm = \<lparr>model = ''llama-3.3-70b-versatile'', temperature = 0.3\<rparr>,
               rev_parser = ReviewerOutput\<rparr>,
         \<lparr>trace = [ChatGroq_created
                     \<lparr>model = ''llama-3.3-70b-versatile'', temperature = 0.3\<rparr>],
          ext = ()\<rparr>)"
    by (simp add: reviewer_with_key pipeline_def llm_reviewer_def)
  have both: "fst (AgentPipeline_init key_set (start ())) = Inr pipeline"
    by (simp add: init_with_key)
  have lower: "(case fst (ReviewerAgent_init key_set (start ())) of
         Inl e \<Rightarrow> False
       | Inr ra \<Rightarrow>
           (case fst (GeneratorAgent_init key_set (start ())) of
              Inl e \<Rightarrow> False
            | Inr ga \<Rightarrow> temperature (rev_llm ra) < temperature (gen_llm ga)))"
  proof -
    obtain ga ra
      where g: "GeneratorAgent_init key_set (start ()) =
                  (Inr ga, emit (ChatGroq_created (gen_llm ga)) (start ()))"
        and r: "ReviewerAgent_init key_set (start ()) =
                  (Inr ra, emit (ChatGroq_created (rev_llm ra)) (start ()))"
        and lt: "temperature (rev_llm ra) < temperature (gen_llm ga)"
      using reviewer_temperature_lower
              [where environ = key_set and key = "''gsk_test''" and w = "start ()"] key
      by blast
    show ?thesis by (simp add: g r lt)
  qed
  have own: "gen_llm (generator pipeline) = llm_generator"
      "rev_llm (reviewer pipeline) = llm_reviewer"
    by (simp_all add: pipeline_def)
  have sent: "requests (new_events (start script_B)
        (snd (run script_runtime pipeline 4 angles (start script_B))))
      = [(gen_llm (generator pipeline), GeneratorInput 4 angles [] GeneratorOutput),
         (rev_llm (reviewer pipeline), ReviewerInput 4 angles first_bundle ReviewerOutput),
         (gen_llm (generator pipeline), GeneratorInput 4 angles
            ([CHR 10] @ feedback_header @ [CHR 10] @ ''- '' @ too_advanced @ [CHR 10])
            GeneratorOutput)]"
    by (simp add: own scenario_B world_B_def new_events_def trace_start first_request_def
          review_request_def)
  show ?thesis using key gen rev both lower sent by simp
qed

section \<open>Failures\<close>

text \<open>
  The statement of claim C4, that a failing role reaches the caller of \<open>run\<close> as a
  \<open>PipelineError\<close> wrapping the cause, does not hold: when the service is unreachable
  at the first request, the caller receives the \<open>ConnectionError\<close> itself, which is
  no \<open>PipelineError\<close> and wraps nothing.
\<close>

theorem run_wraps_error_counterexample:
  "run script_runtime pipeline 4 angles (start [Inl unreachable])
     = (Inl (Exn ''ConnectionError'' ''service unreachable'' None), world_1 [])
   \<and> exn_class (Exn ''ConnectionError'' ''service unreachable'' None) \<noteq> ''PipelineError''
   \<and> exn_cause (Exn ''ConnectionError'' ''service unreachable'' None) = None"
  by (simp add: code_defs demo_defs world_1_def)

text \<open>
  Claim C4, amended. \<open>run\<close> has no handler: an exception raised by the first
  generation, by the review or by the refinement reaches the caller as it was raised,
  and \<open>run\<close> returns no record.
\<close>

theorem run_propagates_unchanged:
  "(generate rt (generator p) g t JNull w0 = (Inl e, w1)
      \<longrightarrow> run rt p g t w0 = (Inl e, w1))
   \<and> (generate rt (generator p) g t JNull w0 = (Inr c, w1)
        \<and> review rt (reviewer p) g t c w1 = (Inl e, w2)
      \<longrightarrow> run rt p g t w0 = (Inl e, w2))
   \<and> (generate rt (generator p) g t JNull w0 = (Inr c, w1)
        \<and> review rt (reviewer p) g t c w1 = (Inr rv, w2)
        \<and> subscript rv ''status'' = Inr (JStr ''fail'')
        \<and> subscript rv ''feedback'' = Inr fb
        \<and> generate rt (generator p) g t fb w2 = (Inl e, w3)
      \<longrightarrow> run rt p g t w0 = (Inl e, w3))"
  by (simp add: run_def)

theorem run_propagates_unchanged_witness:
  "run script_runtime pipeline 4 angles (start [Inl unreachable]) = (Inl unreachable, world_1 [])
   \<and> run script_runtime pipeline 4 angles (start [Inr first_bundle, Inl unreachable])
       = (Inl unreachable, world_2 [])
   \<and> fst (run script_runtime pipeline 4 angles
            (start [Inr first_bundle, Inr (verdict ''fail'' [too_advanced]), Inl unreachable]))
       = Inl unreachable"
  using run_propagates_unchanged
          [where rt = script_runtime and p = pipeline and g = 4 and t = angles
             and ?w0.0 = "start [Inl unreachable]" and e = unreachable
             and ?w1.0 = "world_1 []"]
        run_propagates_unchanged
          [where rt = script_runtime and p = pipeline and g = 4 and t = angles
             and ?w0.0 = "start [Inr first_bundle, Inl unreachable]" and e = unreachable
             and c = first_bundle and ?w1.0 = "world_1 [Inl unreachable]"
             and ?w2.0 = "world_2 []"]
  by (simp add: code_defs demo_defs world_1_def world_2_def)

section \<open>The shape of the final output\<close>

text \<open>
  The statement of claim C2, that \<open>run\<close> and \<open>generate\<close> never return a bundle
  that breaks the ContentBundle invariants, does not hold: a chain that yields a bundle
  of one question with two options and an answer outside them, a value that has every
  field the pydantic model declares, makes \<open>generate\<close> return that bundle and
  \<open>run\<close> return it as final output.
\<close>

lemma first_bundle_ok: "spec_ContentBundle_invariants first_bundle"
  by (simp add: spec_ContentBundle_invariants_def spec_Question_invariants_def first_bundle_def
        angles_mcq_def)

theorem run_returns_malformed_counterexample:
  "run script_runtime pipeline 4 angles (start [Inr short_bundle, Inr (verdict ''pass'' [])])
     = (Inr \<lparr>input = (4, angles), initial_generation = short_bundle,
             initial_review = verdict ''pass'' [], refinement = None,
             final_output = short_bundle\<rparr>,
        \<lparr>trace = [Generate_called 4 angles JNull, first_request,
                  Review_called 4 angles short_bundle,
                  Chain_invoked llm_reviewer (ReviewerInput 4 angles short_bundle ReviewerOutput)],
         ext = []\<rparr>)
   \<and> fst (generate script_runtime (generator pipeline) 4 angles JNull (start [Inr short_bundle]))
     = Inr short_bundle
   \<and> \<not> spec_ContentBundle_invariants short_bundle
   \<and> conforms GeneratorOutput short_bundle"
  by (simp add: code_defs demo_defs spec_ContentBundle_invariants_def
        spec_Question_invariants_def GeneratorOutput_fields_def MCQ_fields_def)

text \<open>
  Claim C2, amended. \<open>generate\<close> returns what its chain yields, and \<open>run\<close>
  returns as final output, unchanged, the value that \<open>generate\<close> returned: the
  initial generation when the status is not \<open>fail\<close>, the content of the refinement,
  generated from the feedback of the review, when it is. Neither checks the value. So
  the final output satisfies the ContentBundle invariants whenever every bundle the
  generator's chain yields does.
\<close>

theorem run_output_as_generated:
  "(generate rt self g t fb w0 = (Inr v, w) \<longrightarrow>
      (\<exists>sec x. build_feedback_section (py_str rt) fb = Inr sec
         \<and> capability rt (gen_llm self) (gen_parser self)
               (GeneratorInput g t sec (gen_parser self)) (ext w0) = (Inr v, x)))
   \<and> (run rt p g t w0 = (Inr res, w') \<longrightarrow>
       (\<exists>w1 w2.
          generate rt (generator p) g t JNull w0 = (Inr (initial_generation res), w1)
        \<and> review rt (reviewer p) g t (initial_generation res) w1
              = (Inr (initial_review res), w2)
        \<and> (if subscript (initial_review res) ''status'' = Inr (JStr ''fail'')
           then (\<exists>feedback ref.
                   subscript (initial_review res) ''feedback'' = Inr feedback
                 \<and> generate rt (generator p) g t feedback w2 = (Inr (refined_content ref), w')
                 \<and> refinement res = Some ref
                 \<and> final_output res = refined_content ref)
           else refinement res = None
                \<and> final_output res = initial_generation res
                \<and> w' = w2)))
   \<and> ((\<forall>llm parser g t s f x v x'.
          capability rt llm parser (GeneratorInput g t s f) x = (Inr v, x')
            \<longrightarrow> spec_ContentBundle_invariants v)
        \<longrightarrow> (generate rt self g t fb w0 = (Inr v, w) \<longrightarrow> spec_ContentBundle_invariants v)
          \<and> (run rt p g t w0 = (Inr res, w') \<longrightarrow>
                spec_ContentBundle_invariants (final_output res)))"
proof -
  have chain: "\<exists>sec x. build_feedback_section (py_str rt) f = Inr sec
         \<and> capability rt (gen_llm a) (gen_parser a)
               (GeneratorInput g t sec (gen_parser a)) (ext w1) = (Inr u, x)"
    if "generate rt a g t f w1 = (Inr u, w2)" for a f w1 w2 u
    using that
    by (auto simp: generate_def chain_invoke_def emit_def Let_def
           split: sum.splits prod.splits)
  have branch: "\<exists>w1 w2.
          generate rt (generator p) g t JNull w0 = (Inr (initial_generation res), w1)
        \<and> review rt (reviewer p) g t (initial_generation res) w1
              = (Inr (initial_review res), w2)
        \<and> (if subscript (initial_review res) ''status'' = Inr (JStr ''fail'')
           then (\<exists>feedback ref.
                   subscript (initial_review res) ''feedback'' = Inr feedback
                 \<and> generate rt (generator p) g t feedback w2 = (Inr (refined_content ref), w')
                 \<and> refinement res = Some ref
                 \<and> final_output res = refined_content ref)
           else refinement res = None
                \<and> final_output res = initial_generation res
                \<and> w' = w2)"
    if "run rt p g t w0 = (Inr res, w')"
    using that
    by (auto simp: run_def Let_def split: sum.splits prod.splits if_splits)
  have inv: "(generate rt self g t fb w0 = (Inr v, w) \<longrightarrow> spec_ContentBundle_invariants v)
          \<and> (run rt p g t w0 = (Inr res, w') \<longrightarrow>
                spec_ContentBundle_invariants (final_output res))"
    if yields: "\<forall>llm parser g t s f x v x'.
          capability rt llm parser (GeneratorInput g t s f) x = (Inr v, x')
            \<longrightarrow> spec_ContentBundle_invariants v"
  proof -
    have gen: "spec_ContentBundle_invariants u"
      if "generate rt a g t f w1 = (Inr u, w2)" for a f w1 w2 u
      using chain [OF that] yields by blast
    have "spec_ContentBundle_invariants (final_output res)"
      if "run rt p g t w0 = (Inr res, w')"
      using branch [OF that] by (auto split: if_splits dest: gen)
    with gen show ?thesis by blast
  qed
  show ?thesis using chain branch inv by blast
qed

lemma second_bundle_ok: "spec_ContentBundle_invariants second_bundle"
  by (simp add: spec_ContentBundle_invariants_def spec_Question_invariants_def
        second_bundle_def angles_mcq_def)

lemma steady_yields:
  "\<forall>llm parser g t s f x v x'.
      capability (steady first_bundle second_bundle rv) llm parser (GeneratorInput g t s f) x
        = (Inr v, x') \<longrightarrow> spec_ContentBundle_invariants v"
  by (simp add: steady_def first_bundle_ok second_bundle_ok)

lemma steady_fail:
  "run (steady first_bundle second_bundle (verdict ''fail'' [too_advanced])) pipeline 4 angles
       (start ())
     = (Inr record_B, \<lparr>trace = trace world_B, ext = ()\<rparr>)"
  by (simp add: code_defs steady_def start_def pipeline_def verdict_def world_B_def
        record_B_def first_request_def review_request_def llm_generator_def llm_reviewer_def
        feedback_header_def)

lemma steady_pass:
  "run (steady first_bundle second_bundle (verdict ''pass'' [])) pipeline 4 angles (start ())
     = (Inr record_A, \<lparr>trace = trace world_A, ext = ()\<rparr>)"
  by (simp add: code_defs steady_def start_def pipeline_def verdict_def world_A_def
        record_A_def first_request_def review_request_def llm_generator_def llm_reviewer_def)

theorem run_output_as_generated_witness:
  "spec_ContentBundle_invariants first_bundle
   \<and> spec_ContentBundle_invariants second_bundle
   \<and> first_bundle \<noteq> second_bundle
   \<and> run (steady first_bundle second_bundle (verdict ''fail'' [too_advanced])) pipeline 4
         angles (start ())
      = (Inr record_B, \<lparr>trace = trace world_B, ext = ()\<rparr>)
   \<and> subscript (initial_review record_B) ''status'' = Inr (JStr ''fail'')
   \<and> initial_generation record_B = first_bundle
   \<and> final_output record_B = second_bundle
   \<and> spec_ContentBundle_invariants (final_output record_B)
   \<and> run (steady first_bundle second_bundle (verdict ''pass'' [])) pipeline 4 angles (start ())
      = (Inr record_A, \<lparr>trace = trace world_A, ext = ()\<rparr>)
   \<and> subscript (initial_review record_A) ''status'' = Inr (JStr ''pass'')
   \<and> final_output record_A = first_bundle
   \<and> spec_ContentBundle_invariants (final_output record_A)"
proof -
  have differ: "first_bundle \<noteq> second_bundle"
    by (simp add: first_bundle_def second_bundle_def)
  have refined: "spec_ContentBundle_invariants (final_output record_B)"
    using run_output_as_generated
            [where rt = "steady first_bundle second_bundle (verdict ''fail'' [too_advanced])"
               and p = pipeline and g = 4 and t = angles and ?w0.0 = "start ()"
               and res = record_B and w' = "\<lparr>trace = trace world_B, ext = ()\<rparr>"]
          steady_yields steady_fail
    by blast
  have accepted: "spec_ContentBundle_invariants (final_output record_A)"
    using run_output_as_generated
            [where rt = "steady first_bundle second_bundle (verdict ''pass'' [])"
               and p = pipeline and g = 4 and t = angles and ?w0.0 = "start ()"
               and res = record_A and w' = "\<lparr>trace = trace world_A, ext = ()\<rparr>"]
          steady_yields steady_pass
    by blast
  show ?thesis
    using differ refined accepted steady_fail steady_pass first_bundle_ok second_bundle_ok
    by (simp add: record_A_def record_B_def verdict_def)
qed

section \<open>What the schemas declare\<close>

text \<open>
  The statement of claim C6, that the validation step yields only objects satisfying
  the invariants of their type, does not hold for the schema it is constructed with: a
  bundle of five questions with three options each and an answer outside them has
  every field of \<open>GeneratorOutput\<close> with the declared type, and \<open>generate\<close> hands
  it to its caller.
\<close>

theorem schema_admits_malformed_counterexample:
  "conforms GeneratorOutput (uniform_bundle 5 3 ''acute'' ''right'')
   \<and> \<not> spec_ContentBundle_invariants (uniform_bundle 5 3 ''acute'' ''right'')
   \<and> fst (generate script_runtime (generator pipeline) 4 angles JNull
            (start [Inr (uniform_bundle 5 3 ''acute'' ''right'')]))
     = Inr (uniform_bundle 5 3 ''acute'' ''right'')"
  by (simp add: code_defs script_runtime_def scripted_def start_def pipeline_def
        uniform_bundle_def uniform_mcq_def spec_ContentBundle_invariants_def
        GeneratorOutput_fields_def MCQ_fields_def list_all_length)

lemma list_all_replicate: "list_all P (replicate n x) \<longleftrightarrow> n = 0 \<or> P x"
  by (induction n) auto

lemma uniform_mcq_fields: "MCQ_fields (uniform_mcq m opt ans)"
  by (simp add: MCQ_fields_def uniform_mcq_def list_all_replicate)

lemma uniform_mcq_invariants:
  "spec_Question_invariants (uniform_mcq m opt ans) \<longleftrightarrow> m = 4 \<and> opt = ans"
  by (auto simp: spec_Question_invariants_def uniform_mcq_def)

text \<open>
  Claim C6, amended. The pydantic models handed to the parsers declare the names and
  the types of the fields and nothing more: \<open>GeneratorOutput\<close> admits a bundle with
  any number of questions, any number of options and any answer, and such a bundle
  satisfies the ContentBundle invariants only with four questions, four options and the
  answer among them. The repository's code adds no check: \<open>review\<close> and
  \<open>generate\<close> return what the chain yields, value or exception.
\<close>

theorem schema_declares_fields_only:
  "conforms GeneratorOutput (uniform_bundle n m opt ans)
   \<and> (spec_ContentBundle_invariants (uniform_bundle n m opt ans)
        \<longleftrightarrow> n = 4 \<and> m = 4 \<and> opt = ans)
   \<and> fst (review rt rself g t c w0)
       = fst (capability rt (rev_llm rself) (rev_parser rself)
               (ReviewerInput g t c (rev_parser rself)) (ext w0))
   \<and> (build_feedback_section (py_str rt) fb = Inr sec \<longrightarrow>
        fst (generate rt gself g t fb w0)
          = fst (capability rt (gen_llm gself) (gen_parser gself)
                  (GeneratorInput g t sec (gen_parser gself)) (ext w0)))"
proof -
  have a: "conforms GeneratorOutput (uniform_bundle n m opt ans)"
    by (simp add: GeneratorOutput_fields_def uniform_bundle_def list_all_replicate
          uniform_mcq_fields)
  have b: "spec_ContentBundle_invariants (uniform_bundle n m opt ans)
        \<longleftrightarrow> n = 4 \<and> m = 4 \<and> opt = ans"
    by (auto simp: spec_ContentBundle_invariants_def uniform_bundle_def list_all_replicate
          uniform_mcq_invariants)
  have c: "fst (review rt rself g t c w0)
       = fst (capability rt (rev_llm rself) (rev_parser rself)
               (ReviewerInput g t c (rev_parser rself)) (ext w0))"
    by (simp add: review_def chain_invoke_def emit_def split: prod.splits)
  have d: "fst (generate rt gself g t fb w0)
          = fst (capability rt (gen_llm gself) (gen_parser gself)
                  (GeneratorInput g t sec (gen_parser gself)) (ext w0))"
    if "build_feedback_section (py_str rt) fb = Inr sec"
    using that by (simp add: generate_def chain_invoke_def emit_def split: prod.splits)
  show ?thesis using a b c d by blast
qed

theorem schema_declares_fields_only_witness:
  "conforms GeneratorOutput (uniform_bundle 4 4 ''right'' ''right'')
   \<and> spec_ContentBundle_invariants (uniform_bundle 4 4 ''right'' ''right'')
   \<and> conforms GeneratorOutput (uniform_bundle 0 7 ''acute'' ''right'')
   \<and> \<not> spec_ContentBundle_invariants (uniform_bundle 0 7 ''acute'' ''right'')
   \<and> build_feedback_section (py_str script_runtime) JNull = Inr []
   \<and> fst (generate script_runtime (generator pipeline) 4 angles JNull
            (start [Inr (uniform_bundle 0 7 ''acute'' ''right'')]))
      = Inr (uniform_bundle 0 7 ''acute'' ''right'')"
  using schema_declares_fields_only
          [of 4 4 "''right''" "''right''" script_runtime "reviewer pipeline" 4 angles JNull
              "start [Inr (uniform_bundle 0 7 ''acute'' ''right'')]" JNull "[]"
              "generator pipeline"]
        schema_declares_fields_only
          [of 0 7 "''acute''" "''right''" script_runtime "reviewer pipeline" 4 angles JNull
              "start [Inr (uniform_bundle 0 7 ''acute'' ''right'')]" JNull "[]"
              "generator pipeline"]
  by (simp add: build_feedback_section_def script_runtime_def scripted_def start_def)

end
